theory Spec2Isabelle
  imports Main
begin

section \<open>JavaScript values that cross the SDK boundary\<close>

text \<open>
  The page \<^verbatim>\<open>pages/guess-number.tsx\<close> builds plain objects, hands them to the chain
  API for encoding, and inspects the plain objects that decoding returns (\<^verbatim>\<open>toJSON() as any\<close>).
  These values are modelled as a datatype. An object lists its properties in the order in
  which \<^verbatim>\<open>Object.keys\<close> enumerates them.
\<close>

datatype jsval =
    JUndefined
  | JNull
  | JBool bool
  | JNum int
  | JStr string
  | JArr "jsval list"
  | JObj "(string \<times> jsval) list"

text \<open>The test \<^verbatim>\<open>if (v)\<close>.\<close>

fun truthy :: "jsval \<Rightarrow> bool" where
  "truthy JUndefined = False"
| "truthy JNull = False"
| "truthy (JBool b) = b"
| "truthy (JNum n) = (n \<noteq> 0)"
| "truthy (JStr s) = (s \<noteq> [])"
| "truthy (JArr xs) = True"
| "truthy (JObj kvs) = True"

definition digit :: "nat \<Rightarrow> char" where
  "digit d = ''0123456789'' ! (d mod 10)"

function decimal :: "nat \<Rightarrow> string" where
  "decimal n = (if n < 10 then [digit n] else decimal (n div 10) @ [digit (n mod 10)])"
  by pat_completeness auto
termination
  by (relation "measure (\<lambda>n. n)") auto

declare decimal.simps [simp del]

text \<open>
  \<^verbatim>\<open>Object.keys(v)\<close> for a value that passed the truthiness test: the property names
  of an object, the indices of an array or of a string, nothing for a number or a boolean.
\<close>

fun Object_keys :: "jsval \<Rightarrow> string list" where
  "Object_keys (JObj kvs) = map fst kvs"
| "Object_keys (JArr xs) = map decimal [0..<length xs]"
| "Object_keys (JStr s) = map decimal [0..<length s]"
| "Object_keys v = []"

text \<open>\<^verbatim>\<open>Object.keys(v)[0]\<close>: \<open>None\<close> stands for \<^verbatim>\<open>undefined\<close>.\<close>

definition first_key :: "jsval \<Rightarrow> string option" where
  "first_key v = (case Object_keys v of [] \<Rightarrow> None | k # ks \<Rightarrow> Some k)"

text \<open>Property access \<^verbatim>\<open>v.k\<close> on a value that is neither null nor undefined.\<close>

fun get_prop :: "jsval \<Rightarrow> string \<Rightarrow> jsval" where
  "get_prop (JObj kvs) k = (case map_of kvs k of None \<Rightarrow> JUndefined | Some v \<Rightarrow> v)"
| "get_prop v k = JUndefined"

fun nullish :: "jsval \<Rightarrow> bool" where
  "nullish JUndefined = True"
| "nullish JNull = True"
| "nullish v = False"

definition join_comma :: "string list \<Rightarrow> string" where
  "join_comma ss = (case ss of [] \<Rightarrow> [] | t # ts \<Rightarrow> t @ concat (map (\<lambda>u. '','' @ u) ts))"

text \<open>String conversion, as a template literal \<^verbatim>\<open>`${v}`\<close> performs it.\<close>

fun to_string :: "jsval \<Rightarrow> string" where
  "to_string JUndefined = ''undefined''"
| "to_string JNull = ''null''"
| "to_string (JBool b) = (if b then ''true'' else ''false'')"
| "to_string (JNum n) = (if n < 0 then ''-'' @ decimal (nat (- n)) else decimal (nat n))"
| "to_string (JStr s) = s"
| "to_string (JArr xs) =
     join_comma (map (\<lambda>x. if nullish x then [] else to_string x) xs)"
| "to_string (JObj kvs) = ''[object Object]''"

text \<open>A thrown or rejected value; the handlers read its \<^verbatim>\<open>message\<close> only.\<close>

datatype error = Error (message: string)

text \<open>\<^verbatim>\<open>new Error(k)\<close> where \<open>k\<close> may be undefined: the message is then empty.\<close>

definition new_Error :: "string option \<Rightarrow> error" where
  "new_Error k = Error (case k of None \<Rightarrow> [] | Some m \<Rightarrow> m)"

section \<open>Handles of the external objects\<close>

datatype api = Api nat
datatype phala = Phala nat
datatype signer = Signer nat
datatype cert = CertificateData nat
datatype unsub = Unsubscribe nat

record account =
  address :: string

type_synonym toast_key = nat

section \<open>The type schema passed to createApi\<close>

datatype type_def =
    Alias string
  | Struct "(string \<times> string) list"
  | Enum "(string \<times> string option) list"

type_synonym schema = "(string \<times> type_def) list"

definition types :: schema where
  "types =
    [(''AccountId'', Alias ''H256''),
     (''RandomNumber'', Alias ''u32''),
     (''ContractOwner'', Struct [(''owner'', ''AccountId'')]),
     (''Guess'', Struct [(''guess_number'', ''RandomNumber'')]),
     (''GuessResult'', Enum [(''TooLarge'', None), (''ToSmall'', None), (''Correct'', None)]),
     (''GuessError'', Enum [(''OriginUnavailable'', None), (''NotAuthorized'', None)]),
     (''GuessNumberRequestData'',
        Enum [(''QueryOwner'', None), (''Guess'', Some ''Guess''), (''PeekRandomNumber'', None)]),
     (''GuessNumberResponseData'',
        Enum [(''Owner'', Some ''AccountId''), (''GuessResult'', Some ''GuessResult''),
              (''RandomNumber'', Some ''RandomNumber'')]),
     (''GuessNumberRequest'',
        Struct [(''head'', ''ContractQueryHead''), (''data'', ''GuessNumberRequestData'')]),
     (''GuessNumberResponse'',
        Struct [(''nonce'', ''[u8; 32]''), (''result'', ''Result<GuessNumberResponseData>'')]),
     (''GuessNumberCommand'',
        Enum [(''NextRandom'', None), (''SetOwner'', Some ''ContractOwner'')])]"

definition variants :: "schema \<Rightarrow> string \<Rightarrow> string list option" where
  "variants sch n = (case map_of sch n of Some (Enum vs) \<Rightarrow> Some (map fst vs) | _ \<Rightarrow> None)"

definition baseURL :: string where
  "baseURL = ''/''"

definition CONTRACT_ID :: nat where
  "CONTRACT_ID = 100"

section \<open>Third-party functions taken as parameters\<close>

text \<open>
  The pure functions of \<^verbatim>\<open>@polkadot/util\<close> and \<^verbatim>\<open>@polkadot/api\<close> that the page calls
  are not part of the page; the handlers are parameterised by them.
  \<^item> \<open>createType_toHex a T v\<close> is \<^verbatim>\<open>a.createType(T, v).toHex()\<close>, which throws
    when \<open>v\<close> does not fit the type \<open>T\<close> of the registry;
  \<^item> \<open>createType_toJSON a T h\<close> is \<^verbatim>\<open>a.createType(T, h).toJSON()\<close>, which may throw;
  \<^item> \<open>TypeError_destructure\<close> is what the engine throws when a null or undefined value
    is destructured.
  A call that throws is \<open>Inl e\<close>, one that returns \<open>v\<close> is \<open>Inr v\<close>.
\<close>

record lib =
  numberToHex :: "nat \<Rightarrow> nat \<Rightarrow> string"
  hexAddPrefix :: "string \<Rightarrow> string"
  Number :: "string \<Rightarrow> jsval"
  createType_toHex :: "api \<Rightarrow> string \<Rightarrow> jsval \<Rightarrow> error + string"
  createType_toJSON :: "api \<Rightarrow> string \<Rightarrow> string \<Rightarrow> error + jsval"
  TypeError_destructure :: error

section \<open>Observable effects\<close>

text \<open>
  Every call that leaves the component is recorded, in order. \<open>RandomHex n r\<close> records
  that \<^verbatim>\<open>randomHex(n)\<close> was called and returned \<open>r\<close>. \<open>ToastInfo c d\<close> is
  \<^verbatim>\<open>toaster.info(c, {autoHideDuration: d})\<close>, with \<open>d = None\<close> for the options \<^verbatim>\<open>{}\<close>;
  the positive and negative toasts are always shown with the options \<^verbatim>\<open>{}\<close>.
\<close>

record command_args =
  cmd_account :: account
  cmd_contractId :: nat
  cmd_payload :: string
  cmd_signer :: signer

datatype effect =
    PreventDefault
  | RandomHex nat string
  | ToastPositive string
  | ToastNegative string
  | ToastInfo "string option" "nat option"
  | ToastUpdate toast_key string nat
  | ToastClear toast_key
  | GetSigner account
  | SignCertificate api string signer
  | Query phala string cert
  | Command phala command_args
  | CreateApi "string option" schema
  | CreatePhala api string

fun is_toast :: "effect \<Rightarrow> bool" where
  "is_toast (ToastPositive m) = True"
| "is_toast (ToastNegative m) = True"
| "is_toast (ToastInfo c d) = True"
| "is_toast e = False"

fun is_query :: "effect \<Rightarrow> bool" where
  "is_query (Query p q c) = True"
| "is_query e = False"

fun is_command :: "effect \<Rightarrow> bool" where
  "is_command (Command p a) = True"
| "is_command e = False"

section \<open>The Game component\<close>

record props =
  api :: api
  phala :: phala

record game =
  account :: "account option"
  number :: string
  certificateData :: "cert option"
  signCertificateLoading :: bool
  guessLoading :: bool
  unsubscribe :: "unsub option"

text \<open>
  The state of a freshly mounted component, for the account the atom holds. The cleanup
  of the first effect (disconnecting the api at unmount) is outside the handlers and is
  not modelled.
\<close>

definition mount :: "account option \<Rightarrow> game" where
  "mount a = \<lparr>account = a, number = [], certificateData = None,
     signCertificateLoading = False, guessLoading = False, unsubscribe = None\<rparr>"

text \<open>
  The atom's value changed to \<open>a\<close>: the component renders with the new account and the
  effect depending on \<^verbatim>\<open>[account]\<close> runs \<^verbatim>\<open>setCertificateData(undefined)\<close>.
\<close>

definition account_changed :: "account option \<Rightarrow> game \<Rightarrow> game" where
  "account_changed a s = s\<lparr>account := a, certificateData := None\<rparr>"

text \<open>The input's \<^verbatim>\<open>onChange\<close>.\<close>

definition input_changed :: "string \<Rightarrow> game \<Rightarrow> game" where
  "input_changed v s = s\<lparr>number := v\<rparr>"

text \<open>
  How the synchronous part of a handler ends: it returned with nothing pending, it
  returned with a call pending, or it threw (the error leaves the handler).
\<close>

datatype phase = Finished | Awaiting | Threw error

subsection \<open>onSignCertificate\<close>

text \<open>
  An asynchronous handler is split at its \<^verbatim>\<open>await\<close>s. Each part takes the state the
  component has when the part runs, and the values the closure captured when the handler was
  invoked. A settled promise is \<open>Inl e\<close> when it rejected with \<open>e\<close> and \<open>Inr v\<close> when it
  resolved with \<open>v\<close>.

  The click: nothing without an account; otherwise the loading flag is raised and
  \<^verbatim>\<open>getSigner(account)\<close> is awaited. The third component is the captured account of the
  pending call.
\<close>

definition onSignCertificate_click :: "game \<Rightarrow> game \<times> effect list \<times> account option" where
  "onSignCertificate_click s =
     (case account s of
        None \<Rightarrow> (s, [], None)
      | Some a \<Rightarrow> (s\<lparr>signCertificateLoading := True\<rparr>, [GetSigner a], Some a))"

text \<open>\<^verbatim>\<open>getSigner\<close> settled: the boolean tells whether \<^verbatim>\<open>signCertificate\<close> is now awaited.\<close>

definition onSignCertificate_signer ::
    "props \<Rightarrow> account \<Rightarrow> error + signer \<Rightarrow> game \<Rightarrow> game \<times> effect list \<times> bool" where
  "onSignCertificate_signer P a r s =
     (case r of
        Inl e \<Rightarrow> (s\<lparr>signCertificateLoading := False\<rparr>, [ToastNegative (message e)], False)
      | Inr sg \<Rightarrow> (s, [SignCertificate (api P) (address a) sg], True))"

text \<open>\<^verbatim>\<open>signCertificate\<close> settled.\<close>

definition onSignCertificate_certificate :: "error + cert \<Rightarrow> game \<Rightarrow> game \<times> effect list" where
  "onSignCertificate_certificate r s =
     (case r of
        Inl e \<Rightarrow> (s\<lparr>signCertificateLoading := False\<rparr>, [ToastNegative (message e)])
      | Inr c \<Rightarrow> (s\<lparr>certificateData := Some c, signCertificateLoading := False\<rparr>,
                 [ToastPositive ''Certificate signed'']))"

text \<open>The handler run to completion with nothing else happening in between.\<close>

definition onSignCertificate ::
    "props \<Rightarrow> error + signer \<Rightarrow> error + cert \<Rightarrow> game \<Rightarrow> game \<times> effect list" where
  "onSignCertificate P rs rc s =
     (case onSignCertificate_click s of
        (s1, fx1, None) \<Rightarrow> (s1, fx1)
      | (s1, fx1, Some a) \<Rightarrow>
          (case onSignCertificate_signer P a rs s1 of
             (s2, fx2, False) \<Rightarrow> (s2, fx1 @ fx2)
           | (s2, fx2, True) \<Rightarrow>
               (case onSignCertificate_certificate rc s2 of
                  (s3, fx3) \<Rightarrow> (s3, fx1 @ fx2 @ fx3))))"

subsection \<open>Requests and responses\<close>

definition query_head :: "lib \<Rightarrow> string \<Rightarrow> jsval" where
  "query_head L r =
     JObj [(''id'', JStr (numberToHex L CONTRACT_ID 256)), (''nonce'', JStr (hexAddPrefix L r))]"

definition guess_request :: "lib \<Rightarrow> string \<Rightarrow> string \<Rightarrow> jsval" where
  "guess_request L r n =
     JObj [(''head'', query_head L r),
           (''data'', JObj [(''guess'', JObj [(''guess_number'', Number L n)])])]"

definition reveal_request :: "lib \<Rightarrow> string \<Rightarrow> jsval" where
  "reveal_request L r =
     JObj [(''head'', query_head L r), (''data'', JObj [(''reveal'', JNull)])]"

text \<open>
  \<^verbatim>\<open>const {result: {ok, err}} = j\<close>: destructuring a null or undefined value throws.
\<close>

definition destructure_result :: "lib \<Rightarrow> jsval \<Rightarrow> error + jsval \<times> jsval" where
  "destructure_result L j =
     (if nullish j then Inl (TypeError_destructure L)
      else if nullish (get_prop j ''result'') then Inl (TypeError_destructure L)
      else Inr (get_prop (get_prop j ''result'') ''ok'', get_prop (get_prop j ''result'') ''err''))"

definition decode_response :: "lib \<Rightarrow> props \<Rightarrow> string \<Rightarrow> error + jsval \<times> jsval" where
  "decode_response L P d =
     (case createType_toJSON L (api P) ''GuessNumberResponse'' (hexAddPrefix L d) of
        Inl e \<Rightarrow> Inl e
      | Inr j \<Rightarrow> destructure_result L j)"

subsection \<open>onGuess\<close>

text \<open>
  The submission, with \<open>r\<close> the value \<^verbatim>\<open>randomHex(32)\<close> returns. The request object
  is built first (so \<^verbatim>\<open>randomHex\<close> has been called) and then encoded; when the encoder
  throws, the handler is left with the loading flag raised and no query sent.
\<close>

definition onGuess_submit :: "lib \<Rightarrow> props \<Rightarrow> string \<Rightarrow> game \<Rightarrow> game \<times> effect list \<times> phase" where
  "onGuess_submit L P r s =
     (case certificateData s of
        None \<Rightarrow> (s, [PreventDefault], Finished)
      | Some c \<Rightarrow>
          (case createType_toHex L (api P) ''GuessNumberRequest'' (guess_request L r (number s)) of
             Inl e \<Rightarrow> (s\<lparr>guessLoading := True\<rparr>, [PreventDefault, RandomHex 32 r], Threw e)
           | Inr h \<Rightarrow>
               (s\<lparr>guessLoading := True\<rparr>,
                [PreventDefault, RandomHex 32 r, Query (phala P) h c],
                Awaiting)))"

text \<open>
  The \<^verbatim>\<open>then\<close> callback on the data \<open>d\<close> the query resolved with. The third component
  is the error the callback throws, if any; what it did before throwing stays done.
\<close>

definition onGuess_then :: "lib \<Rightarrow> props \<Rightarrow> string \<Rightarrow> game \<Rightarrow> game \<times> effect list \<times> error option" where
  "onGuess_then L P d s =
     (case decode_response L P d of
        Inl e \<Rightarrow> (s, [], Some e)
      | Inr (ok, err) \<Rightarrow>
          (case (if truthy ok
                 then (if first_key ok = Some ''correct''
                       then (s\<lparr>number := []\<rparr>, [ToastPositive ''Correct! Number has been reset''])
                       else (s, [ToastInfo (first_key ok) None]))
                 else (s, [])) of
             (s1, fx1) \<Rightarrow>
               (s1, fx1, if truthy err then Some (new_Error (first_key err)) else None)))"

text \<open>The query settled: \<^verbatim>\<open>then\<close>, \<^verbatim>\<open>catch\<close>, \<^verbatim>\<open>finally\<close>.\<close>

definition onGuess_settled :: "lib \<Rightarrow> props \<Rightarrow> error + string \<Rightarrow> game \<Rightarrow> game \<times> effect list" where
  "onGuess_settled L P r s =
     (case (case r of Inl e \<Rightarrow> (s, [], Some e) | Inr d \<Rightarrow> onGuess_then L P d s) of
        (s1, fx1, thrown) \<Rightarrow>
          (s1\<lparr>guessLoading := False\<rparr>,
           fx1 @ (case thrown of None \<Rightarrow> [] | Some e \<Rightarrow> [ToastNegative (message e)])))"

text \<open>
  The handler run to completion; the third component is the error that escapes it, if any.
\<close>

definition onGuess ::
    "lib \<Rightarrow> props \<Rightarrow> string \<Rightarrow> error + string \<Rightarrow> game \<Rightarrow> game \<times> effect list \<times> error option" where
  "onGuess L P r q s =
     (case onGuess_submit L P r s of
        (s1, fx1, Finished) \<Rightarrow> (s1, fx1, None)
      | (s1, fx1, Threw e) \<Rightarrow> (s1, fx1, Some e)
      | (s1, fx1, Awaiting) \<Rightarrow>
          (case onGuess_settled L P q s1 of (s2, fx2) \<Rightarrow> (s2, fx1 @ fx2, None)))"

subsection \<open>onReveal\<close>

text \<open>The character U+2026 of the two pending toasts, in UTF-8.\<close>

definition ellipsis :: string where
  "ellipsis = [CHR 0xE2, CHR 0x80, CHR 0xA6]"

text \<open>
  The click, with \<open>r\<close> the value \<^verbatim>\<open>randomHex(32)\<close> returns. The request is encoded
  before the pending toast is shown: when the encoder throws, no toast is shown and no
  query is sent. The key that \<^verbatim>\<open>toaster.info\<close> returns for the pending toast is the
  \<open>k\<close> of the later parts.
\<close>

definition onReveal_click :: "lib \<Rightarrow> props \<Rightarrow> string \<Rightarrow> game \<Rightarrow> game \<times> effect list \<times> phase" where
  "onReveal_click L P r s =
     (case certificateData s of
        None \<Rightarrow> (s, [], Finished)
      | Some c \<Rightarrow>
          (case createType_toHex L (api P) ''GuessNumberRequest'' (reveal_request L r) of
             Inl e \<Rightarrow> (s, [RandomHex 32 r], Threw e)
           | Inr h \<Rightarrow>
               (s,
                [RandomHex 32 r, ToastInfo (Some (''Cheating'' @ ellipsis)) (Some 0),
                 Query (phala P) h c],
                Awaiting)))"

definition onReveal_then :: "lib \<Rightarrow> props \<Rightarrow> toast_key \<Rightarrow> string \<Rightarrow> effect list \<times> error option" where
  "onReveal_then L P k d =
     (case decode_response L P d of
        Inl e \<Rightarrow> ([], Some e)
      | Inr (ok, err) \<Rightarrow>
          ((if truthy ok
            then [ToastUpdate k (''Current number is '' @ to_string (get_prop ok ''randomNumber'')) 3000]
            else []),
           if truthy err then Some (new_Error (first_key err)) else None))"

definition onReveal_settled :: "lib \<Rightarrow> props \<Rightarrow> toast_key \<Rightarrow> error + string \<Rightarrow> effect list" where
  "onReveal_settled L P k r =
     (case (case r of Inl e \<Rightarrow> ([], Some e) | Inr d \<Rightarrow> onReveal_then L P k d) of
        (fx1, thrown) \<Rightarrow>
          fx1 @ (case thrown of None \<Rightarrow> [] | Some e \<Rightarrow> [ToastClear k, ToastNegative (message e)]))"

definition onReveal ::
    "lib \<Rightarrow> props \<Rightarrow> string \<Rightarrow> toast_key \<Rightarrow> error + string \<Rightarrow> game
      \<Rightarrow> game \<times> effect list \<times> error option" where
  "onReveal L P r k q s =
     (case onReveal_click L P r s of
        (s1, fx1, Finished) \<Rightarrow> (s1, fx1, None)
      | (s1, fx1, Threw e) \<Rightarrow> (s1, fx1, Some e)
      | (s1, fx1, Awaiting) \<Rightarrow> (s1, fx1 @ onReveal_settled L P k q, None))"

subsection \<open>onReset\<close>

text \<open>
  The click: nothing without an account; otherwise the pending toast is shown (its key is
  the \<open>k\<close> of the later parts) and \<^verbatim>\<open>getSigner(account)\<close> is awaited, outside any
  \<^verbatim>\<open>try\<close>.
\<close>

definition onReset_click :: "game \<Rightarrow> effect list \<times> account option" where
  "onReset_click s =
     (case account s of
        None \<Rightarrow> ([], None)
      | Some a \<Rightarrow> ([ToastInfo (Some (''Resetting'' @ ellipsis)) (Some 0), GetSigner a], Some a))"

text \<open>
  \<^verbatim>\<open>getSigner\<close> settled. A rejection is not caught: it rejects the promise the handler
  returned (second component), and so does an encoder that throws on the payload.
  Otherwise the command is submitted (third component true).
\<close>

definition onReset_signer ::
    "lib \<Rightarrow> props \<Rightarrow> account \<Rightarrow> error + signer \<Rightarrow> effect list \<times> error option \<times> bool" where
  "onReset_signer L P a r =
     (case r of
        Inl e \<Rightarrow> ([], Some e, False)
      | Inr sg \<Rightarrow>
          (case createType_toHex L (api P) ''GuessNumberCommand'' (JObj [(''NextRandom'', JNull)]) of
             Inl e \<Rightarrow> ([], Some e, False)
           | Inr h \<Rightarrow>
               ([Command (phala P)
                   \<lparr>cmd_account = a, cmd_contractId = CONTRACT_ID, cmd_payload = h,
                    cmd_signer = sg\<rparr>],
                None, True)))"

text \<open>The \<^verbatim>\<open>onStatus\<close> callback handed to the command.\<close>

definition onReset_onStatus :: "toast_key \<Rightarrow> bool \<Rightarrow> effect list" where
  "onReset_onStatus k isFinalized =
     (if isFinalized then [ToastUpdate k ''Number has been reset'' 3000] else [])"

text \<open>
  \<^verbatim>\<open>phala.command\<close> settled. The \<^verbatim>\<open>catch\<close> callback returns undefined, so the
  reference is written only for a resolved, truthy value.
\<close>

definition onReset_command ::
    "toast_key \<Rightarrow> error + unsub option \<Rightarrow> game \<Rightarrow> game \<times> effect list" where
  "onReset_command k r s =
     (case r of
        Inl e \<Rightarrow> (s, [ToastClear k, ToastNegative (message e)])
      | Inr None \<Rightarrow> (s, [])
      | Inr (Some u) \<Rightarrow> (s\<lparr>unsubscribe := Some u\<rparr>, []))"

text \<open>
  The handler run to completion; \<open>sts\<close> are the \<^verbatim>\<open>isFinalized\<close> flags of the statuses
  the submitted transaction reports afterwards. The third component is the error that
  escapes the handler, if any.
\<close>

definition onReset ::
    "lib \<Rightarrow> props \<Rightarrow> toast_key \<Rightarrow> error + signer \<Rightarrow> error + unsub option \<Rightarrow> bool list \<Rightarrow> game
      \<Rightarrow> game \<times> effect list \<times> error option" where
  "onReset L P k rs rc sts s =
     (case onReset_click s of
        (fx1, None) \<Rightarrow> (s, fx1, None)
      | (fx1, Some a) \<Rightarrow>
          (case onReset_signer L P a rs of
             (fx2, esc, False) \<Rightarrow> (s, fx1 @ fx2, esc)
           | (fx2, esc, True) \<Rightarrow>
               (case onReset_command k rc s of
                  (s3, fx3) \<Rightarrow>
                    (s3,
                     fx1 @ fx2 @ fx3 @
                       (case rc of Inl e \<Rightarrow> [] | Inr u \<Rightarrow> concat (map (onReset_onStatus k) sts)),
                     esc))))"

subsection \<open>What Game renders\<close>

record game_view =
  current :: nat
  sign_isLoading :: bool
  sign_disabled :: bool
  input_value :: string
  guess_disabled :: bool
  guess_isLoading :: bool

definition render_Game :: "game \<Rightarrow> game_view" where
  "render_Game s =
     \<lparr>current = (case certificateData s of None \<Rightarrow> 0 | Some c \<Rightarrow> 1),
      sign_isLoading = signCertificateLoading s,
      sign_disabled = (case account s of None \<Rightarrow> True | Some a \<Rightarrow> False),
      input_value = number s,
      guess_disabled = (number s = []),
      guess_isLoading = guessLoading s\<rparr>"

section \<open>The GuessNumber page\<close>

record page =
  page_api :: "api option"
  page_phala :: "phala option"

datatype page_view = Game_view props | Initializing

definition page_init :: page where
  "page_init = \<lparr>page_api = None, page_phala = None\<rparr>"

text \<open>The mount effect; \<open>ep\<close> is \<^verbatim>\<open>process.env.NEXT_PUBLIC_WS_ENDPOINT\<close>.\<close>

definition GuessNumber_mount :: "string option \<Rightarrow> effect list" where
  "GuessNumber_mount ep = [CreateApi ep types]"

text \<open>\<^verbatim>\<open>createApi\<close> settled: the boolean tells whether \<^verbatim>\<open>createPhala\<close> is now pending.\<close>

definition GuessNumber_api :: "error + api \<Rightarrow> page \<Rightarrow> page \<times> effect list \<times> bool" where
  "GuessNumber_api r pg =
     (case r of
        Inl e \<Rightarrow> (pg, [ToastNegative (message e)], False)
      | Inr a \<Rightarrow> (pg\<lparr>page_api := Some a\<rparr>, [CreatePhala a baseURL], True))"

definition GuessNumber_phala :: "error + phala \<Rightarrow> page \<Rightarrow> page \<times> effect list" where
  "GuessNumber_phala r pg =
     (case r of
        Inl e \<Rightarrow> (pg, [ToastNegative (message e)])
      | Inr p \<Rightarrow> (pg\<lparr>page_phala := Some p\<rparr>, []))"

definition render_GuessNumber :: "page \<Rightarrow> page_view" where
  "render_GuessNumber pg =
     (case page_api pg of
        None \<Rightarrow> Initializing
      | Some a \<Rightarrow>
          (case page_phala pg of
             None \<Rightarrow> Initializing
           | Some p \<Rightarrow> Game_view \<lparr>api = a, phala = p\<rparr>))"

text \<open>The initialisation run to completion from a freshly mounted page.\<close>

definition GuessNumber_initialize ::
    "string option \<Rightarrow> error + api \<Rightarrow> error + phala \<Rightarrow> page \<times> effect list" where
  "GuessNumber_initialize ep ra rp =
     (case GuessNumber_api ra page_init of
        (pg1, fx1, False) \<Rightarrow> (pg1, GuessNumber_mount ep @ fx1)
      | (pg1, fx1, True) \<Rightarrow>
          (case GuessNumber_phala rp pg1 of
             (pg2, fx2) \<Rightarrow> (pg2, GuessNumber_mount ep @ fx1 @ fx2)))"

section \<open>Interleaving of events\<close>

text \<open>
  Between the parts of an asynchronous handler the component handles other events. The
  component, the calls still pending (each with what its continuation captured), the
  effects so far, the errors that escaped a handler and the keys of the submitted commands
  form a world; an event is a user action, a change of the account atom, a status report
  of a submitted command, or the settling of the \<open>i\<close>-th pending call.

  A certificate is an opaque value. To speak of the account it was signed for, the world
  carries one field that the component does not have: \<open>w_cert_for\<close> is the account whose
  address was passed to the \<^verbatim>\<open>signCertificate\<close> call that returned the certificate now
  held. It is written exactly where \<^verbatim>\<open>setCertificateData\<close> is called and read by no
  handler.
\<close>

datatype task =
    Sign_getSigner account
  | Sign_signCertificate account
  | Guess_query
  | Reveal_query toast_key
  | Reset_getSigner account toast_key
  | Reset_command toast_key

datatype settlement =
    Rejected error
  | Resolved_signer signer
  | Resolved_certificate cert
  | Resolved_data string
  | Resolved_unsubscribe "unsub option"

datatype event =
    AccountChanged "account option"
  | InputChanged string
  | ClickSign
  | SubmitGuess string
  | ClickReveal string toast_key
  | ClickReset toast_key
  | Status toast_key bool
  | Settle nat settlement

record world =
  w_game :: game
  w_tasks :: "task list"
  w_log :: "effect list"
  w_escaped :: "error list"
  w_submitted :: "toast_key list"
  w_cert_for :: "account option"

definition world_init :: "account option \<Rightarrow> world" where
  "world_init a =
     \<lparr>w_game = mount a, w_tasks = [], w_log = [], w_escaped = [], w_submitted = [],
      w_cert_for = None\<rparr>"

fun signer_outcome :: "settlement \<Rightarrow> (error + signer) option" where
  "signer_outcome (Rejected e) = Some (Inl e)"
| "signer_outcome (Resolved_signer sg) = Some (Inr sg)"
| "signer_outcome r = None"

fun certificate_outcome :: "settlement \<Rightarrow> (error + cert) option" where
  "certificate_outcome (Rejected e) = Some (Inl e)"
| "certificate_outcome (Resolved_certificate c) = Some (Inr c)"
| "certificate_outcome r = None"

fun data_outcome :: "settlement \<Rightarrow> (error + string) option" where
  "data_outcome (Rejected e) = Some (Inl e)"
| "data_outcome (Resolved_data d) = Some (Inr d)"
| "data_outcome r = None"

fun unsubscribe_outcome :: "settlement \<Rightarrow> (error + unsub option) option" where
  "unsubscribe_outcome (Rejected e) = Some (Inl e)"
| "unsubscribe_outcome (Resolved_unsubscribe u) = Some (Inr u)"
| "unsubscribe_outcome r = None"

fun thrown :: "phase \<Rightarrow> error list" where
  "thrown (Threw e) = [e]"
| "thrown ph = []"

definition remove_nth :: "nat \<Rightarrow> 'a list \<Rightarrow> 'a list" where
  "remove_nth i xs = take i xs @ drop (Suc i) xs"

text \<open>
  The continuation of a pending call runs on the world from which the call has been taken
  out. \<open>None\<close>: the settlement is not one this call can produce.
\<close>

fun settle :: "lib \<Rightarrow> props \<Rightarrow> task \<Rightarrow> settlement \<Rightarrow> world \<Rightarrow> world option" where
  "settle L P (Sign_getSigner a) r w =
     (case signer_outcome r of
        None \<Rightarrow> None
      | Some o1 \<Rightarrow>
          (case onSignCertificate_signer P a o1 (w_game w) of
             (s1, fx, pending) \<Rightarrow>
               Some (w\<lparr>w_game := s1, w_log := w_log w @ fx,
                        w_tasks := w_tasks w @ (if pending then [Sign_signCertificate a] else [])\<rparr>)))"
| "settle L P (Sign_signCertificate a) r w =
     (case certificate_outcome r of
        None \<Rightarrow> None
      | Some o1 \<Rightarrow>
          (case onSignCertificate_certificate o1 (w_game w) of
             (s1, fx) \<Rightarrow>
               Some (w\<lparr>w_game := s1, w_log := w_log w @ fx,
                        w_cert_for := (case o1 of Inl e \<Rightarrow> w_cert_for w | Inr c \<Rightarrow> Some a)\<rparr>)))"
| "settle L P Guess_query r w =
     (case data_outcome r of
        None \<Rightarrow> None
      | Some o1 \<Rightarrow>
          (case onGuess_settled L P o1 (w_game w) of
             (s1, fx) \<Rightarrow> Some (w\<lparr>w_game := s1, w_log := w_log w @ fx\<rparr>)))"
| "settle L P (Reveal_query k) r w =
     (case data_outcome r of
        None \<Rightarrow> None
      | Some o1 \<Rightarrow> Some (w\<lparr>w_log := w_log w @ onReveal_settled L P k o1\<rparr>))"
| "settle L P (Reset_getSigner a k) r w =
     (case signer_outcome r of
        None \<Rightarrow> None
      | Some o1 \<Rightarrow>
          (case onReset_signer L P a o1 of
             (fx, esc, pending) \<Rightarrow>
               Some (w\<lparr>w_log := w_log w @ fx,
                        w_escaped := w_escaped w @ (case esc of None \<Rightarrow> [] | Some e \<Rightarrow> [e]),
                        w_tasks := w_tasks w @ (if pending then [Reset_command k] else []),
                        w_submitted := w_submitted w @ (if pending then [k] else [])\<rparr>)))"
| "settle L P (Reset_command k) r w =
     (case unsubscribe_outcome r of
        None \<Rightarrow> None
      | Some o1 \<Rightarrow>
          (case onReset_command k o1 (w_game w) of
             (s1, fx) \<Rightarrow> Some (w\<lparr>w_game := s1, w_log := w_log w @ fx\<rparr>)))"

fun step :: "lib \<Rightarrow> props \<Rightarrow> event \<Rightarrow> world \<Rightarrow> world" where
  "step L P (AccountChanged a) w =
     w\<lparr>w_game := account_changed a (w_game w), w_cert_for := None\<rparr>"
| "step L P (InputChanged v) w = w\<lparr>w_game := input_changed v (w_game w)\<rparr>"
| "step L P ClickSign w =
     (case onSignCertificate_click (w_game w) of
        (s1, fx, pending) \<Rightarrow>
          w\<lparr>w_game := s1, w_log := w_log w @ fx,
            w_tasks := w_tasks w @ (case pending of None \<Rightarrow> [] | Some a \<Rightarrow> [Sign_getSigner a])\<rparr>)"
| "step L P (SubmitGuess r) w =
     (case onGuess_submit L P r (w_game w) of
        (s1, fx, ph) \<Rightarrow>
          w\<lparr>w_game := s1, w_log := w_log w @ fx,
            w_tasks := w_tasks w @ (if ph = Awaiting then [Guess_query] else []),
            w_escaped := w_escaped w @ thrown ph\<rparr>)"
| "step L P (ClickReveal r k) w =
     (case onReveal_click L P r (w_game w) of
        (s1, fx, ph) \<Rightarrow>
          w\<lparr>w_game := s1, w_log := w_log w @ fx,
            w_tasks := w_tasks w @ (if ph = Awaiting then [Reveal_query k] else []),
            w_escaped := w_escaped w @ thrown ph\<rparr>)"
| "step L P (ClickReset k) w =
     (case onReset_click (w_game w) of
        (fx, pending) \<Rightarrow>
          w\<lparr>w_log := w_log w @ fx,
            w_tasks := w_tasks w @ (case pending of None \<Rightarrow> [] | Some a \<Rightarrow> [Reset_getSigner a k])\<rparr>)"
| "step L P (Status k b) w =
     (if k \<in> set (w_submitted w) then w\<lparr>w_log := w_log w @ onReset_onStatus k b\<rparr> else w)"
| "step L P (Settle i r) w =
     (if i < length (w_tasks w)
      then (case settle L P (w_tasks w ! i) r (w\<lparr>w_tasks := remove_nth i (w_tasks w)\<rparr>) of
              None \<Rightarrow> w
            | Some w1 \<Rightarrow> w1)
      else w)"

definition run :: "lib \<Rightarrow> props \<Rightarrow> event list \<Rightarrow> world \<Rightarrow> world" where
  "run L P evs w = foldl (\<lambda>w1 ev. step L P ev w1) w evs"

text \<open>The account a pending signing captured; \<open>None\<close> for the other pending calls.\<close>

fun signing_for :: "task \<Rightarrow> account option" where
  "signing_for (Sign_getSigner a) = Some a"
| "signing_for (Sign_signCertificate a) = Some a"
| "signing_for t = None"

definition signing_pending :: "world \<Rightarrow> bool" where
  "signing_pending w = list_ex (\<lambda>t. signing_for t \<noteq> None) (w_tasks w)"

text \<open>
  A sequence of events is calm from a world when each change of the account in it comes
  at a moment at which no signing is in flight.
\<close>

fun calm :: "lib \<Rightarrow> props \<Rightarrow> event list \<Rightarrow> world \<Rightarrow> bool" where
  "calm L P [] w = True"
| "calm L P (AccountChanged a # evs) w =
     (\<not> signing_pending w \<and> calm L P evs (step L P (AccountChanged a) w))"
| "calm L P (ev # evs) w = calm L P evs (step L P ev w)"

text \<open>
  The certificate held, if any, was signed for the selected account, and so will be the
  certificate of every signing in flight.
\<close>

definition certificate_current :: "world \<Rightarrow> bool" where
  "certificate_current w =
     (list_all (\<lambda>t. signing_for t = None \<or> signing_for t = account (w_game w)) (w_tasks w)
      \<and> (certificateData (w_game w) = None \<or> w_cert_for w = account (w_game w)))"

text \<open>The added field is set exactly when a certificate is held.\<close>

definition cert_for_mirrors :: "world \<Rightarrow> bool" where
  "cert_for_mirrors w = ((w_cert_for w = None) = (certificateData (w_game w) = None))"

section \<open>A concrete instance for evaluation\<close>

text \<open>
  The theorems below hold for every choice of the third-party functions. To evaluate the
  handlers on concrete inputs, one instance is fixed.

  Its encoder follows the registry in what matters here: an enum value is an object whose
  first key names, up to letter case, a variant that the schema declares for the enum, and
  anything else makes it throw. For a request it writes down the type name, the nonce and
  the guessed number.

  Its decoder knows a few responses. Like the decoder of the registry, it keys the \<^verbatim>\<open>ok\<close>
  object by the variant of \<^verbatim>\<open>GuessNumberResponseData\<close> (the convention \<^verbatim>\<open>onReveal\<close>
  relies on when it reads \<^verbatim>\<open>ok.randomNumber\<close>); the response \<^verbatim>\<open>0x06\<close> has the shape
  that \<^verbatim>\<open>onGuess\<close> tests for instead.
\<close>

definition lower_char :: "char \<Rightarrow> char" where
  "lower_char c =
     (case map_of (zip ''ABCDEFGHIJKLMNOPQRSTUVWXYZ'' ''abcdefghijklmnopqrstuvwxyz'') c of
        None \<Rightarrow> c
      | Some d \<Rightarrow> d)"

definition enum_accepts :: "string \<Rightarrow> jsval \<Rightarrow> bool" where
  "enum_accepts n v =
     (case variants types n of
        None \<Rightarrow> False
      | Some vs \<Rightarrow>
          (case first_key v of
             None \<Rightarrow> False
           | Some k \<Rightarrow> map lower_char k \<in> set (map (map lower_char) vs)))"

definition example_encode :: "api \<Rightarrow> string \<Rightarrow> jsval \<Rightarrow> error + string" where
  "example_encode a T v =
     (if T = ''GuessNumberRequest''
      then (if enum_accepts ''GuessNumberRequestData'' (get_prop v ''data'')
            then Inr (T @ ''/'' @ to_string (get_prop (get_prop v ''head'') ''nonce'') @ ''/'' @
                      to_string (get_prop (get_prop (get_prop v ''data'') ''guess'') ''guess_number''))
            else Inl (Error ''Cannot map Enum JSON''))
      else if T = ''GuessNumberCommand''
      then (if enum_accepts ''GuessNumberCommand'' v
            then Inr (T @ ''/'' @ concat (Object_keys v))
            else Inl (Error ''Cannot map Enum JSON''))
      else Inl (Error ''Unknown type''))"

definition example_decode :: "api \<Rightarrow> string \<Rightarrow> string \<Rightarrow> error + jsval" where
  "example_decode a T h =
     (if h = ''0x01''
      then Inr (JObj [(''result'', JObj [(''ok'', JObj [(''guessResult'', JStr ''Correct'')])])])
      else if h = ''0x02''
      then Inr (JObj [(''result'', JObj [(''ok'', JObj [(''guessResult'', JStr ''TooLarge'')])])])
      else if h = ''0x03''
      then Inr (JObj [(''result'', JObj [(''err'', JObj [(''notAuthorized'', JNull)])])])
      else if h = ''0x04''
      then Inr (JObj [(''result'', JObj [(''ok'', JObj [(''randomNumber'', JNum 7)])])])
      else if h = ''0x06''
      then Inr (JObj [(''result'', JObj [(''ok'', JObj [(''correct'', JNull)])])])
      else Inl (Error ''Unable to decode''))"

definition hex_digit :: "nat \<Rightarrow> char" where
  "hex_digit d = ''0123456789abcdef'' ! (d mod 16)"

function hex :: "nat \<Rightarrow> string" where
  "hex n = (if n < 16 then [hex_digit n] else hex (n div 16) @ [hex_digit (n mod 16)])"
  by pat_completeness auto
termination
  by (relation "measure (\<lambda>n. n)") auto

declare hex.simps [simp del]

definition example_lib :: lib where
  "example_lib =
     \<lparr>numberToHex = (\<lambda>n bits. ''0x'' @ replicate (bits div 4 - length (hex n)) (CHR ''0'') @ hex n),
      hexAddPrefix = (\<lambda>h. if take 2 h = ''0x'' then h else ''0x'' @ h),
      Number = (\<lambda>t. JNum (foldl (\<lambda>acc c. 10 * acc + (of_char c - 48)) 0 t)),
      createType_toHex = example_encode,
      createType_toJSON = example_decode,
      TypeError_destructure = Error ''Cannot destructure''\<rparr>"

text \<open>The same instance with an encoder that accepts every value.\<close>

definition lenient_lib :: lib where
  "lenient_lib = example_lib\<lparr>createType_toHex := (\<lambda>a T v. Inr (T @ ''/'' @ concat (Object_keys v)))\<rparr>"

definition example_props :: props where
  "example_props = \<lparr>api = Api 1, phala = Phala 1\<rparr>"

definition alice :: account where
  "alice = \<lparr>address = ''5Alice''\<rparr>"

definition bob :: account where
  "bob = \<lparr>address = ''5Bob''\<rparr>"

text \<open>A component in which alice has signed a certificate and typed 42.\<close>

definition signed_game :: game where
  "signed_game = (mount (Some alice))\<lparr>number := ''42'', certificateData := Some (CertificateData 1)\<rparr>"

text \<open>The certificates of the queries in a list of effects, in order.\<close>

fun query_cert :: "effect \<Rightarrow> cert list" where
  "query_cert (Query p h c) = [c]"
| "query_cert e = []"

definition certs_used :: "effect list \<Rightarrow> cert list" where
  "certs_used fx = concat (map query_cert fx)"

section \<open>Auxiliary facts\<close>

lemma filter_query_onStatus: "filter is_query (concat (map (onReset_onStatus k) sts)) = []"
  by (induction sts) (simp_all add: onReset_onStatus_def)

lemma filter_command_onStatus: "filter is_command (concat (map (onReset_onStatus k) sts)) = []"
  by (induction sts) (simp_all add: onReset_onStatus_def)

lemma signed_game_simps:
  "certificateData signed_game = Some (CertificateData 1)"
  "number signed_game = ''42''"
  "account signed_game = Some alice"
  by (simp_all add: signed_game_def mount_def)

lemma example_props_simps:
  "api example_props = Api 1"
  "phala example_props = Phala 1"
  by (simp_all add: example_props_def)

lemma example_decode_response:
  "decode_response example_lib example_props ''01'' =
     Inr (JObj [(''guessResult'', JStr ''Correct'')], JUndefined)"
  "decode_response example_lib example_props ''02'' =
     Inr (JObj [(''guessResult'', JStr ''TooLarge'')], JUndefined)"
  "decode_response example_lib example_props ''03'' = Inr (JUndefined, JObj [(''notAuthorized'', JNull)])"
  "decode_response example_lib example_props ''05'' = Inl (Error ''Unable to decode'')"
  "decode_response example_lib example_props ''06'' = Inr (JObj [(''correct'', JNull)], JUndefined)"
  by (simp_all add: decode_response_def destructure_result_def example_lib_def example_decode_def
        example_props_def)

lemma example_encode_guess:
  "createType_toHex example_lib a ''GuessNumberRequest'' (guess_request example_lib ''ab'' ''42'') =
     Inr ''GuessNumberRequest/0xab/42''"
  by (simp add: example_lib_def example_encode_def enum_accepts_def variants_def types_def
        guess_request_def query_head_def first_key_def lower_char_def decimal.simps digit_def)

text \<open>
  The request that \<^verbatim>\<open>onReveal\<close> builds names no variant that the schema declares for
  \<^verbatim>\<open>GuessNumberRequestData\<close>: an encoder that follows the schema throws on it.
\<close>

lemma example_encode_reveal:
  "createType_toHex example_lib a ''GuessNumberRequest'' (reveal_request example_lib ''ab'') =
     Inl (Error ''Cannot map Enum JSON'')"
  by (simp add: example_lib_def example_encode_def enum_accepts_def variants_def types_def
        reveal_request_def query_head_def first_key_def lower_char_def)

lemma example_encode_command:
  "createType_toHex example_lib a ''GuessNumberCommand'' (JObj [(''NextRandom'', JNull)]) =
     Inr ''GuessNumberCommand/NextRandom''"
  by (simp add: example_lib_def example_encode_def enum_accepts_def variants_def types_def
        first_key_def lower_char_def)

lemma lenient_encode:
  "createType_toHex lenient_lib a T v = Inr (T @ ''/'' @ concat (Object_keys v))"
  by (simp add: lenient_lib_def)

lemma certs_used_append: "certs_used (xs @ ys) = certs_used xs @ certs_used ys"
  by (simp add: certs_used_def)

text \<open>
  The rejections that a handler catches: each ends in a negative toast with the error's
  message (after the pending toast is cleared, where there is one), the loading flag is
  lowered, and nothing else happens.
\<close>

lemma caught_rejections:
  "onSignCertificate_signer P a (Inl e) s =
     (s\<lparr>signCertificateLoading := False\<rparr>, [ToastNegative (message e)], False)"
  "onSignCertificate_certificate (Inl e) s =
     (s\<lparr>signCertificateLoading := False\<rparr>, [ToastNegative (message e)])"
  "onGuess_settled L P (Inl e) s = (s\<lparr>guessLoading := False\<rparr>, [ToastNegative (message e)])"
  "onReveal_settled L P k (Inl e) = [ToastClear k, ToastNegative (message e)]"
  "onReset_command k (Inl e) s = (s, [ToastClear k, ToastNegative (message e)])"
  by (simp_all add: onSignCertificate_signer_def onSignCertificate_certificate_def
        onGuess_settled_def onReveal_settled_def onReset_command_def)

text \<open>A decoded result whose \<^verbatim>\<open>err\<close> is set, and whose \<^verbatim>\<open>ok\<close> is not, is caught likewise.\<close>

lemma caught_err_variant:
  assumes "decode_response L P d = Inr (ok, err)" and "\<not> truthy ok" and "truthy err"
  shows "onGuess_settled L P (Inr d) s =
           (s\<lparr>guessLoading := False\<rparr>, [ToastNegative (message (new_Error (first_key err)))])"
    and "onReveal_settled L P k (Inr d) =
           [ToastClear k, ToastNegative (message (new_Error (first_key err)))]"
  using assms
  by (simp_all add: onGuess_settled_def onGuess_then_def onReveal_settled_def onReveal_then_def)

text \<open>A change of the account clears the certificate at that moment.\<close>

lemma account_changed_clears_certificate:
  "certificateData (account_changed a s) = None"
  "account (account_changed a s) = a"
  "certificateData (w_game (step L P (AccountChanged a) w)) = None"
  by (simp_all add: account_changed_def)

text \<open>
  Calm runs keep the held certificate, and the signings in flight, with the selected
  account.
\<close>

lemma list_all_remove_nth: "list_all Q xs \<Longrightarrow> list_all Q (remove_nth i xs)"
  by (auto simp: remove_nth_def list_all_iff dest: in_set_takeD in_set_dropD)

lemma settle_keeps_current:
  assumes "certificate_current (w\<lparr>w_tasks := ts\<rparr>)"
    and "signing_for t = None \<or> signing_for t = account (w_game w)"
    and "settle L P t r (w\<lparr>w_tasks := ts\<rparr>) = Some w1"
  shows "certificate_current w1"
  using assms
  by (cases t)
     (auto simp: certificate_current_def onSignCertificate_signer_def
        onSignCertificate_certificate_def onGuess_settled_def onGuess_then_def
        onReset_signer_def onReset_command_def
        split: option.splits sum.splits prod.splits if_splits)

lemma step_keeps_current:
  assumes "certificate_current w"
    and "\<And>a. ev = AccountChanged a \<Longrightarrow> \<not> signing_pending w"
  shows "certificate_current (step L P ev w)"
proof (cases ev)
  case (AccountChanged a)
  with assms(2) have "\<not> signing_pending w" by simp
  then have "list_all (\<lambda>t. signing_for t = None) (w_tasks w)"
    by (simp add: signing_pending_def list_all_iff list_ex_iff)
  then show ?thesis
    using AccountChanged
    by (simp add: certificate_current_def account_changed_def list_all_iff)
next
  case (InputChanged v)
  with assms(1) show ?thesis
    by (simp add: certificate_current_def input_changed_def)
next
  case ClickSign
  with assms(1) show ?thesis
    by (auto simp: certificate_current_def onSignCertificate_click_def split: option.splits)
next
  case (SubmitGuess r)
  with assms(1) show ?thesis
    by (auto simp: certificate_current_def onGuess_submit_def split: option.splits sum.splits)
next
  case (ClickReveal r k)
  with assms(1) show ?thesis
    by (auto simp: certificate_current_def onReveal_click_def split: option.splits sum.splits)
next
  case (ClickReset k)
  with assms(1) show ?thesis
    by (auto simp: certificate_current_def onReset_click_def split: option.splits)
next
  case (Status k b)
  with assms(1) show ?thesis
    by (simp add: certificate_current_def)
next
  case (Settle i r)
  show ?thesis
  proof (cases "i < length (w_tasks w)")
    case False
    with Settle assms(1) show ?thesis by simp
  next
    case True
    let ?w0 = "w\<lparr>w_tasks := remove_nth i (w_tasks w)\<rparr>"
    from assms(1)
    have all: "list_all (\<lambda>t. signing_for t = None \<or> signing_for t = account (w_game w)) (w_tasks w)"
      by (simp add: certificate_current_def)
    from all True
    have t: "signing_for (w_tasks w ! i) = None \<or> signing_for (w_tasks w ! i) = account (w_game w)"
      by (simp add: list_all_length)
    from assms(1) all have c0: "certificate_current ?w0"
      by (simp add: certificate_current_def list_all_remove_nth)
    show ?thesis
    proof (cases "settle L P (w_tasks w ! i) r ?w0")
      case None
      with Settle True assms(1) show ?thesis by simp
    next
      case (Some w1)
      from settle_keeps_current [OF c0 t Some] Settle True Some show ?thesis by simp
    qed
  qed
qed

lemma run_keeps_current:
  "certificate_current w \<Longrightarrow> calm L P evs w \<Longrightarrow> certificate_current (run L P evs w)"
proof (induction evs arbitrary: w)
  case Nil
  then show ?case by (simp add: run_def)
next
  case (Cons ev evs)
  have c: "calm L P evs (step L P ev w)"
    and q: "\<And>a. ev = AccountChanged a \<Longrightarrow> \<not> signing_pending w"
    using Cons.prems(2) by (cases ev; simp)+
  from step_keeps_current [OF Cons.prems(1) q] have "certificate_current (step L P ev w)"
    by simp
  from Cons.IH [OF this c] show ?case by (simp add: run_def)
qed

lemma world_init_current: "certificate_current (world_init a)"
  by (simp add: certificate_current_def world_init_def mount_def)

text \<open>
  What \<^verbatim>\<open>onGuess\<close> shows for a decoded result, whatever \<^verbatim>\<open>ok\<close> and \<^verbatim>\<open>err\<close> hold:
  the two tests are independent.
\<close>

lemma onGuess_settled_toasts:
  assumes "decode_response L P d = Inr (ok, err)"
  shows "snd (onGuess_settled L P (Inr d) s) =
           (if truthy ok
            then [if first_key ok = Some ''correct''
                  then ToastPositive ''Correct! Number has been reset''
                  else ToastInfo (first_key ok) None]
            else [])
           @ (if truthy err then [ToastNegative (message (new_Error (first_key err)))] else [])"
  using assms
  by (simp add: onGuess_settled_def onGuess_then_def)

text \<open>In every run the added field follows \<^verbatim>\<open>certificateData\<close>.\<close>

lemma settle_mirrors:
  assumes "cert_for_mirrors (w\<lparr>w_tasks := ts\<rparr>)"
    and "settle L P t r (w\<lparr>w_tasks := ts\<rparr>) = Some w1"
  shows "cert_for_mirrors w1"
  using assms
  by (cases t)
     (auto simp: cert_for_mirrors_def onSignCertificate_signer_def
        onSignCertificate_certificate_def onGuess_settled_def onGuess_then_def
        onReset_signer_def onReset_command_def
        split: option.splits sum.splits prod.splits if_splits)

lemma step_mirrors:
  assumes "cert_for_mirrors w"
  shows "cert_for_mirrors (step L P ev w)"
proof (cases ev)
  case (Settle i r)
  show ?thesis
  proof (cases "i < length (w_tasks w)")
    case False
    with Settle assms show ?thesis by simp
  next
    case True
    let ?w0 = "w\<lparr>w_tasks := remove_nth i (w_tasks w)\<rparr>"
    from assms have c0: "cert_for_mirrors ?w0"
      by (simp add: cert_for_mirrors_def)
    show ?thesis
    proof (cases "settle L P (w_tasks w ! i) r ?w0")
      case None
      with Settle True assms show ?thesis by simp
    next
      case (Some w1)
      from settle_mirrors [OF c0 Some] Settle True Some show ?thesis by simp
    qed
  qed
qed (insert assms, auto simp: cert_for_mirrors_def account_changed_def input_changed_def
      onSignCertificate_click_def onGuess_submit_def onReveal_click_def onReset_click_def
      split: option.splits sum.splits)

lemma run_mirrors:
  "cert_for_mirrors w \<Longrightarrow> cert_for_mirrors (run L P evs w)"
  by (induction evs arbitrary: w) (simp_all add: run_def step_mirrors)

lemma cert_for_set_with_certificate:
  "(w_cert_for (run L P evs (world_init a)) = None) =
   (certificateData (w_game (run L P evs (world_init a))) = None)"
  using run_mirrors [of "world_init a" L P evs]
  by (simp add: cert_for_mirrors_def world_init_def mount_def)

text \<open>
  What \<^verbatim>\<open>onGuess\<close> shows when the first key of \<^verbatim>\<open>ok\<close> is not \<^verbatim>\<open>correct\<close>: an
  info toast with that key, and the number stays.
\<close>

lemma onGuess_names_first_key:
  assumes "decode_response L P d = Inr (JObj ((k, v) # kvs), err)"
    and "k \<noteq> ''correct''" and "\<not> truthy err"
  shows "onGuess_settled L P (Inr d) s = (s\<lparr>guessLoading := False\<rparr>, [ToastInfo (Some k) None])"
  using assms
  by (simp add: onGuess_settled_def onGuess_then_def first_key_def)

section \<open>The claims\<close>

text \<open>
  Claim C1. For a decoded \<^verbatim>\<open>ok\<close> result that is the Correct variant, \<^verbatim>\<open>onGuess\<close> shows
  the positive toast \<^verbatim>\<open>Correct! Number has been reset\<close>. This fails: the handler compares
  the first key of \<^verbatim>\<open>ok\<close> with \<^verbatim>\<open>correct\<close>, but the schema of this page wraps the
  guess result in \<^verbatim>\<open>GuessNumberResponseData\<close>, so a correct guess decodes to
  \<^verbatim>\<open>{result: {ok: {guessResult: 'Correct'}}}\<close>, the first key is \<^verbatim>\<open>guessResult\<close>, and the
  handler shows the info toast \<^verbatim>\<open>guessResult\<close> and leaves the number in place. The first
  conjunct says so for every state and every other library function; the second runs the
  whole handler on the component in which alice typed 42.
\<close>

theorem correct_guess_shows_info_toast:
  "onGuess_settled
     (L\<lparr>createType_toJSON :=
          (\<lambda>a T h. Inr (JObj [(''result'', JObj [(''ok'', JObj [(''guessResult'', JStr ''Correct'')])])]))\<rparr>)
     P (Inr d) s =
     (s\<lparr>guessLoading := False\<rparr>, [ToastInfo (Some ''guessResult'') None])
   \<and> decode_response example_lib example_props ''01'' =
       Inr (JObj [(''guessResult'', JStr ''Correct'')], JUndefined)
   \<and> onGuess example_lib example_props ''ab'' (Inr ''01'') signed_game =
       (signed_game,
        [PreventDefault, RandomHex 32 ''ab'',
         Query (Phala 1) ''GuessNumberRequest/0xab/42'' (CertificateData 1),
         ToastInfo (Some ''guessResult'') None],
        None)
   \<and> number signed_game = ''42''"
proof -
  have a: "onGuess_settled
     (L\<lparr>createType_toJSON :=
          (\<lambda>a T h. Inr (JObj [(''result'', JObj [(''ok'', JObj [(''guessResult'', JStr ''Correct'')])])]))\<rparr>)
     P (Inr d) s =
     (s\<lparr>guessLoading := False\<rparr>, [ToastInfo (Some ''guessResult'') None])"
    by (simp add: onGuess_settled_def onGuess_then_def decode_response_def
          destructure_result_def first_key_def)
  have b: "onGuess example_lib example_props ''ab'' (Inr ''01'') signed_game =
       (signed_game,
        [PreventDefault, RandomHex 32 ''ab'',
         Query (Phala 1) ''GuessNumberRequest/0xab/42'' (CertificateData 1),
         ToastInfo (Some ''guessResult'') None],
        None)"
    by (simp add: onGuess_def onGuess_submit_def onGuess_settled_def onGuess_then_def
          signed_game_simps example_props_simps example_encode_guess example_decode_response
          first_key_def)
       (simp add: signed_game_def mount_def)
  from a b show ?thesis
    by (simp add: example_decode_response signed_game_simps)
qed

text \<open>
  Claim C2. Every error arising in a handler is caught inside that handler and surfaced as
  a negative toast. This fails in \<^verbatim>\<open>onReset\<close>: \<^verbatim>\<open>getSigner\<close> is awaited outside any
  \<^verbatim>\<open>try\<close> and before the \<^verbatim>\<open>catch\<close> attached to \<^verbatim>\<open>phala.command\<close>. When alice
  clicks Reset and \<^verbatim>\<open>getSigner\<close> rejects, the pending toast stays, no negative toast is
  shown, no command is sent and the error escapes the handler, whereas
  \<^verbatim>\<open>onSignCertificate\<close> answers the same rejection with a negative toast.
\<close>

theorem onReset_getSigner_rejection_escapes:
  "onReset example_lib example_props 7 (Inl (Error ''No extension'')) rc sts (mount (Some alice)) =
     (mount (Some alice),
      [ToastInfo (Some (''Resetting'' @ ellipsis)) (Some 0), GetSigner alice],
      Some (Error ''No extension''))
   \<and> snd (onSignCertificate example_props (Inl (Error ''No extension'')) rc' (mount (Some alice))) =
     [GetSigner alice, ToastNegative ''No extension'']"
  by (simp add: onReset_def onReset_click_def onReset_signer_def onSignCertificate_def
        onSignCertificate_click_def onSignCertificate_signer_def mount_def)

text \<open>
  Claim C3. Invoked with an account selected, \<^verbatim>\<open>onSignCertificate\<close> obtains a signer for
  that account, calls \<^verbatim>\<open>signCertificate\<close> with the api, the account's address and that
  signer, stores the returned certificate as \<^verbatim>\<open>certificateData\<close> and shows the positive
  toast \<^verbatim>\<open>Certificate signed\<close>. If obtaining the signer or signing rejects, the handler
  leaves \<^verbatim>\<open>certificateData\<close> as it is and shows a negative toast with the error's message
  instead. The last three conjuncts say the same of the single continuations, whatever
  state they run on.
\<close>

theorem onSignCertificate_stores_certificate:
  assumes "account s = Some a"
  shows "onSignCertificate P (Inr sg) (Inr c) s =
           (s\<lparr>certificateData := Some c, signCertificateLoading := False\<rparr>,
            [GetSigner a, SignCertificate (api P) (address a) sg,
             ToastPositive ''Certificate signed''])
       \<and> certificateData (fst (onSignCertificate P (Inl e) rc s)) = certificateData s
       \<and> snd (onSignCertificate P (Inl e) rc s) = [GetSigner a, ToastNegative (message e)]
       \<and> certificateData (fst (onSignCertificate P (Inr sg) (Inl e) s)) = certificateData s
       \<and> snd (onSignCertificate P (Inr sg) (Inl e) s) =
           [GetSigner a, SignCertificate (api P) (address a) sg, ToastNegative (message e)]
       \<and> certificateData (fst (onSignCertificate_signer P a rs s')) = certificateData s'
       \<and> certificateData (fst (onSignCertificate_certificate (Inl e) s')) = certificateData s'
       \<and> certificateData (fst (onSignCertificate_certificate (Inr c) s')) = Some c"
  using assms
  by (simp add: onSignCertificate_def onSignCertificate_click_def onSignCertificate_signer_def
        onSignCertificate_certificate_def split: sum.splits)

theorem onSignCertificate_stores_certificate_witness:
  "account (mount (Some alice)) = Some alice
   \<and> onSignCertificate example_props (Inr (Signer 1)) (Inr (CertificateData 1)) (mount (Some alice)) =
       ((mount (Some alice))\<lparr>certificateData := Some (CertificateData 1)\<rparr>,
        [GetSigner alice, SignCertificate (Api 1) ''5Alice'' (Signer 1),
         ToastPositive ''Certificate signed''])
   \<and> snd (onSignCertificate example_props (Inr (Signer 1)) (Inl (Error ''Cancelled''))
            (mount (Some alice))) =
       [GetSigner alice, SignCertificate (Api 1) ''5Alice'' (Signer 1), ToastNegative ''Cancelled'']"
proof -
  have h: "account (mount (Some alice)) = Some alice"
    by (simp add: mount_def)
  from onSignCertificate_stores_certificate [OF h, where P = example_props and sg = "Signer 1"
      and c = "CertificateData 1" and e = "Error ''Cancelled''"] h
  show ?thesis
    by (simp add: mount_def example_props_simps alice_def)
qed

text \<open>
  Claim C4. Every guess is encoded as a \<^verbatim>\<open>GuessNumberRequest\<close>, a type the schema declares,
  whose \<^verbatim>\<open>head.id\<close> is \<^verbatim>\<open>numberToHex(100, 256)\<close>, whose \<^verbatim>\<open>head.nonce\<close> is
  \<^verbatim>\<open>hexAddPrefix\<close> of the value that this call's own \<^verbatim>\<open>randomHex(32)\<close> returned, and whose
  \<^verbatim>\<open>data\<close> is the guess variant carrying \<^verbatim>\<open>Number(number)\<close> as \<^verbatim>\<open>guess_number\<close>; the
  query carries what the encoder returns for that object, and no query is sent when the
  encoder throws. The schema passed to \<^verbatim>\<open>createApi\<close> declares \<^verbatim>\<open>GuessResult\<close> with exactly
  the variants TooLarge, ToSmall and Correct, and \<^verbatim>\<open>GuessNumberCommand\<close> with exactly
  NextRandom and SetOwner.
\<close>

theorem guess_request_shape:
  assumes "certificateData s = Some c"
  shows "fst (snd (onGuess_submit L P r s)) =
           [PreventDefault, RandomHex 32 r] @
           (case createType_toHex L (api P) ''GuessNumberRequest''
                   (JObj [(''head'', JObj [(''id'', JStr (numberToHex L 100 256)),
                                           (''nonce'', JStr (hexAddPrefix L r))]),
                          (''data'', JObj [(''guess'',
                                            JObj [(''guess_number'', Number L (number s))])])]) of
              Inl e \<Rightarrow> []
            | Inr h \<Rightarrow> [Query (phala P) h c])
       \<and> map_of types ''GuessNumberRequest'' =
           Some (Struct [(''head'', ''ContractQueryHead''), (''data'', ''GuessNumberRequestData'')])
       \<and> GuessNumber_mount ep = [CreateApi ep types]
       \<and> variants types ''GuessResult'' = Some [''TooLarge'', ''ToSmall'', ''Correct'']
       \<and> variants types ''GuessNumberCommand'' = Some [''NextRandom'', ''SetOwner'']"
  using assms
  by (simp add: onGuess_submit_def guess_request_def query_head_def CONTRACT_ID_def
        types_def variants_def GuessNumber_mount_def split: sum.splits)

theorem guess_request_shape_witness:
  "certificateData signed_game = Some (CertificateData 1)
   \<and> guess_request example_lib ''ab'' ''42'' =
       JObj [(''head'',
              JObj [(''id'',
                     JStr ''0x0000000000000000000000000000000000000000000000000000000000000064''),
                    (''nonce'', JStr ''0xab'')]),
             (''data'', JObj [(''guess'', JObj [(''guess_number'', JNum 42)])])]
   \<and> fst (snd (onGuess_submit example_lib example_props ''ab'' signed_game)) =
       [PreventDefault, RandomHex 32 ''ab'',
        Query (Phala 1) ''GuessNumberRequest/0xab/42'' (CertificateData 1)]"
proof -
  note h = signed_game_simps(1)
  have x: "hex 100 = ''64''"
    by (simp add: hex.simps hex_digit_def)
  have y: "replicate 62 (CHR ''0'') =
      ''00000000000000000000000000000000000000000000000000000000000000''"
    by (simp add: numeral_eq_Suc)
  have g: "guess_request example_lib ''ab'' ''42'' =
       JObj [(''head'',
              JObj [(''id'',
                     JStr ''0x0000000000000000000000000000000000000000000000000000000000000064''),
                    (''nonce'', JStr ''0xab'')]),
             (''data'', JObj [(''guess'', JObj [(''guess_number'', JNum 42)])])]"
    by (simp add: guess_request_def query_head_def CONTRACT_ID_def example_lib_def x y)
  have n: "JObj [(''head'', JObj [(''id'', JStr (numberToHex example_lib 100 256)),
                                  (''nonce'', JStr (hexAddPrefix example_lib ''ab''))]),
                 (''data'', JObj [(''guess'',
                                   JObj [(''guess_number'', Number example_lib ''42'')])])] =
      guess_request example_lib ''ab'' ''42''"
    by (simp add: guess_request_def query_head_def CONTRACT_ID_def)
  from guess_request_shape [OF h, where L = example_lib and P = example_props and r = "''ab''"
      and ep = None]
  have "fst (snd (onGuess_submit example_lib example_props ''ab'' signed_game)) =
       [PreventDefault, RandomHex 32 ''ab'',
        Query (Phala 1) ''GuessNumberRequest/0xab/42'' (CertificateData 1)]"
    by (simp only: n signed_game_simps example_props_simps example_encode_guess)
       simp
  with h g show ?thesis by simp
qed

text \<open>
  Claim C5. Guessing and revealing go through the query channel only: whatever the
  encoder, the query and the decoder do, \<^verbatim>\<open>onGuess\<close> and \<^verbatim>\<open>onReveal\<close> never submit a
  command, and with a certificate held each sends exactly the one query carrying what the
  encoder returned for its request (for a reveal, the request with the data
  \<^verbatim>\<open>{reveal: null}\<close>), and none when the encoder throws. Resetting goes through the command
  channel only: \<^verbatim>\<open>onReset\<close> never sends a query, and once the signer of the selected
  account is obtained it submits exactly the one command for contract 100 whose payload is
  what the encoder returned for the \<^verbatim>\<open>GuessNumberCommand\<close> \<^verbatim>\<open>NextRandom\<close>, with that
  account and the signer obtained for it; it submits none when obtaining the signer
  rejects or the encoder throws.
\<close>

theorem query_and_command_channels:
  "filter is_command (fst (snd (onGuess L P r q s))) = []
   \<and> filter is_command (fst (snd (onReveal L P r k q s))) = []
   \<and> (\<forall>c. certificateData s = Some c \<longrightarrow>
         filter is_query (fst (snd (onGuess L P r q s))) =
           (case createType_toHex L (api P) ''GuessNumberRequest'' (guess_request L r (number s)) of
              Inl e \<Rightarrow> []
            | Inr h \<Rightarrow> [Query (phala P) h c])
         \<and> filter is_query (fst (snd (onReveal L P r k q s))) =
           (case createType_toHex L (api P) ''GuessNumberRequest''
                   (JObj [(''head'', JObj [(''id'', JStr (numberToHex L 100 256)),
                                           (''nonce'', JStr (hexAddPrefix L r))]),
                          (''data'', JObj [(''reveal'', JNull)])]) of
              Inl e \<Rightarrow> []
            | Inr h \<Rightarrow> [Query (phala P) h c]))
   \<and> filter is_query (fst (snd (onReset L P k rs rc sts s))) = []
   \<and> filter is_command (fst (snd (onReset L P k (Inl e) rc sts s))) = []
   \<and> (\<forall>a sg. account s = Some a \<longrightarrow>
         filter is_command (fst (snd (onReset L P k (Inr sg) rc sts s))) =
           (case createType_toHex L (api P) ''GuessNumberCommand'' (JObj [(''NextRandom'', JNull)]) of
              Inl e \<Rightarrow> []
            | Inr h \<Rightarrow>
                [Command (phala P)
                   \<lparr>cmd_account = a, cmd_contractId = 100, cmd_payload = h, cmd_signer = sg\<rparr>])
         \<and> GetSigner a \<in> set (fst (snd (onReset L P k (Inr sg) rc sts s))))"
proof -
  have g: "filter is_command (fst (snd (onGuess L P r q s))) = []"
    by (auto simp: onGuess_def onGuess_submit_def onGuess_settled_def onGuess_then_def
          split: sum.splits prod.splits option.splits phase.splits)
  have v: "filter is_command (fst (snd (onReveal L P r k q s))) = []"
    by (auto simp: onReveal_def onReveal_click_def onReveal_settled_def onReveal_then_def
          split: sum.splits prod.splits option.splits phase.splits)
  have gq: "filter is_query (fst (snd (onGuess L P r q s))) =
      (case createType_toHex L (api P) ''GuessNumberRequest'' (guess_request L r (number s)) of
         Inl e \<Rightarrow> []
       | Inr h \<Rightarrow> [Query (phala P) h c])"
    if "certificateData s = Some c" for c
    using that
    by (auto simp: onGuess_def onGuess_submit_def onGuess_settled_def onGuess_then_def
          split: sum.splits prod.splits option.splits)
  have vq: "filter is_query (fst (snd (onReveal L P r k q s))) =
      (case createType_toHex L (api P) ''GuessNumberRequest''
              (JObj [(''head'', JObj [(''id'', JStr (numberToHex L 100 256)),
                                      (''nonce'', JStr (hexAddPrefix L r))]),
                     (''data'', JObj [(''reveal'', JNull)])]) of
         Inl e \<Rightarrow> []
       | Inr h \<Rightarrow> [Query (phala P) h c])"
    if "certificateData s = Some c" for c
    using that
    by (auto simp: onReveal_def onReveal_click_def onReveal_settled_def onReveal_then_def
          reveal_request_def query_head_def CONTRACT_ID_def
          split: sum.splits prod.splits option.splits)
  have rq: "filter is_query (fst (snd (onReset L P k rs rc sts s))) = []"
    by (auto simp: onReset_def onReset_click_def onReset_signer_def onReset_command_def
          filter_query_onStatus split: sum.splits prod.splits option.splits)
  have rn: "filter is_command (fst (snd (onReset L P k (Inl e) rc sts s))) = []"
    by (auto simp: onReset_def onReset_click_def onReset_signer_def
          split: prod.splits option.splits)
  have rcm: "filter is_command (fst (snd (onReset L P k (Inr sg) rc sts s))) =
      (case createType_toHex L (api P) ''GuessNumberCommand'' (JObj [(''NextRandom'', JNull)]) of
         Inl e \<Rightarrow> []
       | Inr h \<Rightarrow>
           [Command (phala P)
              \<lparr>cmd_account = a, cmd_contractId = 100, cmd_payload = h, cmd_signer = sg\<rparr>])
      \<and> GetSigner a \<in> set (fst (snd (onReset L P k (Inr sg) rc sts s)))"
    if "account s = Some a" for a sg
    using that
    by (auto simp: onReset_def onReset_click_def onReset_signer_def onReset_command_def
          CONTRACT_ID_def filter_command_onStatus
          split: sum.splits prod.splits option.splits)
  from g v gq vq rq rn rcm show ?thesis by blast
qed

theorem query_and_command_channels_witness:
  "filter is_query (fst (snd (onGuess example_lib example_props ''ab'' (Inr ''02'') signed_game))) =
     [Query (Phala 1) ''GuessNumberRequest/0xab/42'' (CertificateData 1)]
   \<and> filter is_query (fst (snd (onReveal example_lib example_props ''ab'' 5 (Inr ''04'') signed_game))) =
     []
   \<and> filter is_query (fst (snd (onReveal lenient_lib example_props ''ab'' 5 (Inr ''04'') signed_game))) =
     [Query (Phala 1) ''GuessNumberRequest/headdata'' (CertificateData 1)]
   \<and> filter is_command
       (fst (snd (onReset example_lib example_props 5 (Inr (Signer 1)) (Inr (Some (Unsubscribe 1)))
                    [False, True] signed_game))) =
     [Command (Phala 1)
        \<lparr>cmd_account = alice, cmd_contractId = 100,
         cmd_payload = ''GuessNumberCommand/NextRandom'', cmd_signer = Signer 1\<rparr>]"
proof -
  have n: "JObj [(''head'', JObj [(''id'', JStr (numberToHex example_lib 100 256)),
                                  (''nonce'', JStr (hexAddPrefix example_lib ''ab''))]),
                 (''data'', JObj [(''reveal'', JNull)])] =
      reveal_request example_lib ''ab''"
    by (simp add: reveal_request_def query_head_def CONTRACT_ID_def)
  note t = query_and_command_channels [where P = example_props and r = "''ab''"
      and k = 5 and s = signed_game and rs = "Inr (Signer 1)"
      and rc = "Inr (Some (Unsubscribe 1))" and sts = "[False, True]" and e = "Error ''x''"]
  from t [where L = example_lib and q = "Inr ''02''"] t [where L = example_lib and q = "Inr ''04''"]
    t [where L = lenient_lib and q = "Inr ''04''"]
  show ?thesis
    by (simp add: n signed_game_simps example_props_simps example_encode_guess
          example_encode_reveal example_encode_command lenient_encode)
qed

text \<open>
  Claim C6. The page calls \<^verbatim>\<open>createApi\<close> with the endpoint of
  \<^verbatim>\<open>NEXT_PUBLIC_WS_ENDPOINT\<close> and the schema, and then \<^verbatim>\<open>createPhala\<close> with the
  resulting api. It renders the Game component exactly when both the api and the SDK
  instance are set and the Initializing spinner otherwise, so also while the SDK instance
  is still pending. If either step rejects, a negative toast with the error's message is
  shown and the page stays on the spinner.
\<close>

theorem GuessNumber_initialization:
  "GuessNumber_initialize ep (Inr a) (Inr p) =
     (\<lparr>page_api = Some a, page_phala = Some p\<rparr>, [CreateApi ep types, CreatePhala a baseURL])
   \<and> render_GuessNumber (fst (GuessNumber_initialize ep (Inr a) (Inr p))) =
       Game_view \<lparr>api = a, phala = p\<rparr>
   \<and> ((\<exists>Q. render_GuessNumber pg = Game_view Q) = (page_api pg \<noteq> None \<and> page_phala pg \<noteq> None))
   \<and> ((render_GuessNumber pg = Initializing) = (page_api pg = None \<or> page_phala pg = None))
   \<and> render_GuessNumber page_init = Initializing
   \<and> render_GuessNumber (fst (GuessNumber_api (Inr a) page_init)) = Initializing
   \<and> GuessNumber_initialize ep (Inl e) rp =
       (page_init, [CreateApi ep types, ToastNegative (message e)])
   \<and> GuessNumber_initialize ep (Inr a) (Inl e) =
       (page_init\<lparr>page_api := Some a\<rparr>,
        [CreateApi ep types, CreatePhala a baseURL, ToastNegative (message e)])
   \<and> render_GuessNumber (fst (GuessNumber_initialize ep (Inl e) rp)) = Initializing
   \<and> render_GuessNumber (fst (GuessNumber_initialize ep (Inr a) (Inl e))) = Initializing"
  by (simp add: GuessNumber_initialize_def GuessNumber_api_def GuessNumber_phala_def
        GuessNumber_mount_def render_GuessNumber_def page_init_def split: option.splits)

theorem GuessNumber_initialization_witness:
  "render_GuessNumber
     (fst (GuessNumber_initialize (Some ''ws://localhost:9944'') (Inr (Api 1)) (Inr (Phala 1)))) =
     Game_view example_props
   \<and> GuessNumber_initialize (Some ''ws://localhost:9944'') (Inr (Api 1)) (Inl (Error ''No runtime'')) =
     (\<lparr>page_api = Some (Api 1), page_phala = None\<rparr>,
      [CreateApi (Some ''ws://localhost:9944'') types, CreatePhala (Api 1) ''/'',
       ToastNegative ''No runtime''])"
  using GuessNumber_initialization [where ep = "Some ''ws://localhost:9944''" and a = "Api 1"
      and p = "Phala 1" and e = "Error ''No runtime''" and pg = page_init
      and rp = "Inr (Phala 1)"]
  by (simp add: example_props_def page_init_def baseURL_def render_GuessNumber_def)

text \<open>
  Claim C7. In every render of Game the current step of the progress steps is 1 exactly
  when a certificate is held and 0 exactly when none is; two states that agree on
  \<^verbatim>\<open>certificateData\<close> show the same step.
\<close>

theorem render_Game_current:
  "(current (render_Game s) = 1) = (certificateData s \<noteq> None)
   \<and> (current (render_Game s) = 0) = (certificateData s = None)
   \<and> (certificateData s = certificateData s' \<longrightarrow>
        current (render_Game s) = current (render_Game s'))"
  by (simp add: render_Game_def split: option.splits)

theorem render_Game_current_witness:
  "current (render_Game signed_game) = 1
   \<and> current (render_Game (mount (Some alice))) = 0
   \<and> current (render_Game (signed_game\<lparr>guessLoading := True\<rparr>)) = current (render_Game signed_game)"
  using render_Game_current [of signed_game "signed_game\<lparr>guessLoading := True\<rparr>"]
    render_Game_current [of "mount (Some alice)" "mount (Some alice)"]
  by (simp add: signed_game_def mount_def)

text \<open>
  Claim C8 as stated: once the selected account has changed, a certificate signed for the
  earlier account is never held or used for a query. This fails when the change comes
  while a signing is in flight, since nothing cancels it: alice clicks Sign Certificate,
  the signer resolves, the account changes to bob (which clears the certificate), the
  signing then resolves and stores the certificate signed for alice's address, and the
  next guess is sent with it while bob is the selected account.
\<close>

theorem stale_certificate_counterexample:
  "run example_lib example_props
     [ClickSign, Settle 0 (Resolved_signer (Signer 1)), AccountChanged (Some bob),
      Settle 0 (Resolved_certificate (CertificateData 1)), InputChanged ''42'', SubmitGuess ''ab'']
     (world_init (Some alice)) =
   \<lparr>w_game = \<lparr>account = Some bob, number = ''42'', certificateData = Some (CertificateData 1),
               signCertificateLoading = False, guessLoading = True, unsubscribe = None\<rparr>,
    w_tasks = [Guess_query],
    w_log = [GetSigner alice, SignCertificate (Api 1) (address alice) (Signer 1),
             ToastPositive ''Certificate signed'', PreventDefault, RandomHex 32 ''ab'',
             Query (Phala 1) ''GuessNumberRequest/0xab/42'' (CertificateData 1)],
    w_escaped = [], w_submitted = [], w_cert_for = Some alice\<rparr>
   \<and> alice \<noteq> bob"
  by (simp add: run_def world_init_def mount_def remove_nth_def account_changed_def
        input_changed_def onSignCertificate_click_def onSignCertificate_signer_def
        onSignCertificate_certificate_def onGuess_submit_def example_props_simps
        example_encode_guess alice_def bob_def)

text \<open>
  Claim C8, amended. Whenever the selected account changes (including to none),
  \<^verbatim>\<open>certificateData\<close> is reset to undefined. Provided that no certificate signing is in
  flight at the moment of any account change, the certificate held at any later time was
  signed for the account selected at that time. A guess or a reveal adds at most one query,
  and a query it adds carries the certificate held when it is made: one query with that
  certificate when the encoder returns, none when the encoder throws or no certificate is
  held.
\<close>

theorem certificate_follows_account:
  "certificateData (w_game (step L P (AccountChanged a) w)) = None
   \<and> account (w_game (step L P (AccountChanged a) w)) = a
   \<and> (calm L P evs (world_init a0) \<longrightarrow>
        certificateData (w_game (run L P evs (world_init a0))) = None
        \<or> w_cert_for (run L P evs (world_init a0)) = account (w_game (run L P evs (world_init a0))))
   \<and> (\<forall>c. certificateData (w_game w) = Some c \<longrightarrow>
        certs_used (w_log (step L P (SubmitGuess r) w)) =
          certs_used (w_log w) @
            (case createType_toHex L (api P) ''GuessNumberRequest''
                    (guess_request L r (number (w_game w))) of
               Inl e \<Rightarrow> []
             | Inr h \<Rightarrow> [c])
        \<and> certs_used (w_log (step L P (ClickReveal r k) w)) =
          certs_used (w_log w) @
            (case createType_toHex L (api P) ''GuessNumberRequest'' (reveal_request L r) of
               Inl e \<Rightarrow> []
             | Inr h \<Rightarrow> [c]))
   \<and> (certificateData (w_game w) = None \<longrightarrow>
        certs_used (w_log (step L P (SubmitGuess r) w)) = certs_used (w_log w)
        \<and> certs_used (w_log (step L P (ClickReveal r k) w)) = certs_used (w_log w))"
proof -
  have x: "certificateData (w_game (run L P evs (world_init a0))) = None
      \<or> w_cert_for (run L P evs (world_init a0)) = account (w_game (run L P evs (world_init a0)))"
    if "calm L P evs (world_init a0)"
    using run_keeps_current [OF world_init_current that]
    by (simp add: certificate_current_def)
  have y: "certs_used (w_log (step L P (SubmitGuess r) w)) =
          certs_used (w_log w) @
            (case createType_toHex L (api P) ''GuessNumberRequest''
                    (guess_request L r (number (w_game w))) of
               Inl e \<Rightarrow> []
             | Inr h \<Rightarrow> [c])
        \<and> certs_used (w_log (step L P (ClickReveal r k) w)) =
          certs_used (w_log w) @
            (case createType_toHex L (api P) ''GuessNumberRequest'' (reveal_request L r) of
               Inl e \<Rightarrow> []
             | Inr h \<Rightarrow> [c])"
    if "certificateData (w_game w) = Some c" for c
    using that
    by (simp add: onGuess_submit_def onReveal_click_def certs_used_def split: sum.splits)
  have z: "certs_used (w_log (step L P (SubmitGuess r) w)) = certs_used (w_log w)
        \<and> certs_used (w_log (step L P (ClickReveal r k) w)) = certs_used (w_log w)"
    if "certificateData (w_game w) = None"
    using that
    by (simp add: onGuess_submit_def onReveal_click_def certs_used_def)
  from x y z show ?thesis
    by (simp add: account_changed_def)
qed

theorem certificate_follows_account_witness:
  "calm example_lib example_props
     [ClickSign, Settle 0 (Resolved_signer (Signer 1)),
      Settle 0 (Resolved_certificate (CertificateData 1)), AccountChanged (Some bob),
      ClickSign, Settle 0 (Resolved_signer (Signer 2)),
      Settle 0 (Resolved_certificate (CertificateData 2))]
     (world_init (Some alice))
   \<and> certificateData (w_game (run example_lib example_props
       [ClickSign, Settle 0 (Resolved_signer (Signer 1)),
        Settle 0 (Resolved_certificate (CertificateData 1)), AccountChanged (Some bob),
        ClickSign, Settle 0 (Resolved_signer (Signer 2)),
        Settle 0 (Resolved_certificate (CertificateData 2))]
       (world_init (Some alice)))) = Some (CertificateData 2)
   \<and> w_cert_for (run example_lib example_props
       [ClickSign, Settle 0 (Resolved_signer (Signer 1)),
        Settle 0 (Resolved_certificate (CertificateData 1)), AccountChanged (Some bob),
        ClickSign, Settle 0 (Resolved_signer (Signer 2)),
        Settle 0 (Resolved_certificate (CertificateData 2))]
       (world_init (Some alice))) = Some bob
   \<and> account (w_game (run example_lib example_props
       [ClickSign, Settle 0 (Resolved_signer (Signer 1)),
        Settle 0 (Resolved_certificate (CertificateData 1)), AccountChanged (Some bob),
        ClickSign, Settle 0 (Resolved_signer (Signer 2)),
        Settle 0 (Resolved_certificate (CertificateData 2))]
       (world_init (Some alice)))) = Some bob
   \<and> certs_used
       (w_log (step example_lib example_props (SubmitGuess ''ab'')
                 ((world_init (Some alice))\<lparr>w_game := signed_game\<rparr>))) = [CertificateData 1]
   \<and> certs_used
       (w_log (step example_lib example_props (ClickReveal ''ab'' 5)
                 ((world_init (Some alice))\<lparr>w_game := signed_game\<rparr>))) = []
   \<and> certs_used
       (w_log (step example_lib example_props (SubmitGuess ''ab'') (world_init (Some alice)))) = []"
proof -
  let ?evs = "[ClickSign, Settle 0 (Resolved_signer (Signer 1)),
      Settle 0 (Resolved_certificate (CertificateData 1)), AccountChanged (Some bob),
      ClickSign, Settle 0 (Resolved_signer (Signer 2)),
      Settle 0 (Resolved_certificate (CertificateData 2))]"
  let ?w = "(world_init (Some alice))\<lparr>w_game := signed_game\<rparr>"
  have c: "calm example_lib example_props ?evs (world_init (Some alice))"
    by (simp add: world_init_def mount_def remove_nth_def signing_pending_def
          onSignCertificate_click_def onSignCertificate_signer_def
          onSignCertificate_certificate_def)
  have h: "certificateData (w_game (run example_lib example_props ?evs (world_init (Some alice)))) =
      Some (CertificateData 2)"
    by (simp add: run_def world_init_def mount_def remove_nth_def account_changed_def
          onSignCertificate_click_def onSignCertificate_signer_def
          onSignCertificate_certificate_def)
  have b: "account (w_game (run example_lib example_props ?evs (world_init (Some alice)))) = Some bob"
    by (simp add: run_def world_init_def mount_def remove_nth_def account_changed_def
          onSignCertificate_click_def onSignCertificate_signer_def
          onSignCertificate_certificate_def)
  have g: "w_game ?w = signed_game" "w_log ?w = []"
    "w_game (world_init (Some alice)) = mount (Some alice)" "w_log (world_init (Some alice)) = []"
    "certificateData (mount (Some alice)) = None"
    by (simp_all add: world_init_def mount_def)
  note t = certificate_follows_account [where L = example_lib and P = example_props
      and evs = ?evs and ?a0.0 = "Some alice" and a = None and r = "''ab''" and k = 5]
  from t [where w = ?w] t [where w = "world_init (Some alice)"] c h b
  show ?thesis
    by (simp only: g signed_game_simps example_encode_guess example_encode_reveal) 
       (simp add: certs_used_def)
qed

text \<open>
  Claim C9. Without a certificate, \<^verbatim>\<open>onGuess\<close> only prevents the default form submission
  and \<^verbatim>\<open>onReveal\<close> does nothing: no query is sent, the state is unchanged and nothing
  escapes. Without a selected account, \<^verbatim>\<open>onSignCertificate\<close> and \<^verbatim>\<open>onReset\<close> do nothing.
\<close>

theorem handlers_guarded:
  "(certificateData s = None \<longrightarrow>
      onGuess L P r q s = (s, [PreventDefault], None) \<and> onReveal L P r k q s = (s, [], None))
   \<and> (account s = None \<longrightarrow>
      onSignCertificate P rs rc s = (s, []) \<and> onReset L P k rs rm sts s = (s, [], None))"
  by (simp add: onGuess_def onGuess_submit_def onReveal_def onReveal_click_def
        onSignCertificate_def onSignCertificate_click_def onReset_def onReset_click_def)

theorem handlers_guarded_witness:
  "certificateData (mount None) = None
   \<and> account (mount None) = None
   \<and> onGuess example_lib example_props ''ab'' (Inr ''01'') (mount None) =
       (mount None, [PreventDefault], None)
   \<and> onReveal example_lib example_props ''ab'' 5 (Inr ''04'') (mount None) = (mount None, [], None)
   \<and> onSignCertificate example_props (Inr (Signer 1)) (Inr (CertificateData 1)) (mount None) =
       (mount None, [])
   \<and> onReset example_lib example_props 5 (Inr (Signer 1)) (Inr None) [True] (mount None) =
       (mount None, [], None)"
  using handlers_guarded [where s = "mount None" and L = example_lib and P = example_props
      and r = "''ab''" and q = "Inr ''01''"]
    handlers_guarded [where s = "mount None" and L = example_lib and P = example_props
      and r = "''ab''" and q = "Inr ''04''" and k = 5 and rs = "Inr (Signer 1)"
      and rc = "Inr (CertificateData 1)" and rm = "Inr None" and sts = "[True]"]
  by (simp add: mount_def)

text \<open>
  Claim C10. When the query of a guess has settled, \<^verbatim>\<open>guessLoading\<close> is false again,
  whether the query resolved (with an \<^verbatim>\<open>ok\<close> or an \<^verbatim>\<open>err\<close> result, or one that cannot be
  decoded) or rejected; so it is after every run of \<^verbatim>\<open>onGuess\<close> in which the request was
  encoded and the query sent. And \<^verbatim>\<open>signCertificateLoading\<close> is false again when
  \<^verbatim>\<open>onSignCertificate\<close> completes, on the success and on the failure path.
\<close>

theorem loading_flags_cleared:
  "guessLoading (fst (onGuess_settled L P q s)) = False
   \<and> (\<forall>c h. certificateData s = Some c
            \<and> createType_toHex L (api P) ''GuessNumberRequest'' (guess_request L r (number s)) = Inr h
          \<longrightarrow> guessLoading (fst (onGuess L P r q s)) = False)
   \<and> signCertificateLoading (fst (onSignCertificate_signer P a (Inl e) s)) = False
   \<and> signCertificateLoading (fst (onSignCertificate_certificate rc s)) = False
   \<and> (\<forall>a. account s = Some a \<longrightarrow>
         signCertificateLoading (fst (onSignCertificate P rs rc s)) = False)"
  by (auto simp: onGuess_def onGuess_submit_def onGuess_settled_def onGuess_then_def
        onSignCertificate_def onSignCertificate_click_def onSignCertificate_signer_def
        onSignCertificate_certificate_def
        split: sum.splits prod.splits option.splits)

theorem loading_flags_cleared_witness:
  "guessLoading (fst (onGuess example_lib example_props ''ab'' (Inr ''03'') signed_game)) = False
   \<and> guessLoading
       (fst (onGuess example_lib example_props ''ab'' (Inl (Error ''offline'')) signed_game)) = False
   \<and> signCertificateLoading
       (fst (onSignCertificate example_props (Inr (Signer 1)) (Inr (CertificateData 1)) signed_game)) =
       False
   \<and> signCertificateLoading
       (fst (onSignCertificate example_props (Inl (Error ''No extension'')) (Inr (CertificateData 1))
               signed_game)) = False"
  using loading_flags_cleared [where s = signed_game and L = example_lib and P = example_props
      and r = "''ab''" and q = "Inr ''03''" and rs = "Inr (Signer 1)" and rc = "Inr (CertificateData 1)"]
    loading_flags_cleared [where s = signed_game and L = example_lib and P = example_props
      and r = "''ab''" and q = "Inl (Error ''offline'')" and rs = "Inl (Error ''No extension'')"
      and rc = "Inr (CertificateData 1)"]
  by (simp add: signed_game_simps example_encode_guess)

end
